theory Spec2Isabelle
  imports Main
begin

section \<open>The packaging script \<open>setup.py\<close>\<close>

text \<open>
  The script reads \<open>README.md\<close>, then calls \<open>setuptools.setup\<close> with keyword
  arguments. Its inputs are the process environment (\<open>os.getenv\<close>), the file system
  (\<open>open\<close>) and the package directories \<open>find_packages()\<close> discovers; its result is
  the set of keyword arguments handed to \<open>setup\<close>, or the exception raised before
  \<open>setup\<close> is reached.
\<close>

type_synonym environ = "string \<rightharpoonup> string"

type_synonym files = "string \<rightharpoonup> string"

datatype py_error = FileNotFoundError

text \<open>\<open>os.getenv(key, default)\<close>: the variable's value when it is set (an empty value
  included), the default otherwise.\<close>

definition getenv :: "environ \<Rightarrow> string \<Rightarrow> string \<Rightarrow> string" where
  "getenv env key dflt = (case env key of None \<Rightarrow> dflt | Some v \<Rightarrow> v)"

text \<open>\<open>open(path, 'r')\<close> followed by \<open>fh.read()\<close>: a missing file raises.\<close>

definition open_read :: "files \<Rightarrow> string \<Rightarrow> py_error + string" where
  "open_read fs path = (case fs path of None \<Rightarrow> Inl FileNotFoundError | Some s \<Rightarrow> Inr s)"

record setup_kwargs =
  name :: string
  version :: string
  url :: string
  author :: string
  author_email :: string
  description :: string
  long_description :: string
  long_description_content_type :: string
  packages :: "string list"
  python_requires :: string
  install_requires :: "string list"
  classifiers :: "string list"

text \<open>The call \<open>setup(...)\<close> of lines 7 to 36, with \<open>find_packages()\<close> as the
  parameter \<open>found\<close>.\<close>

definition setup_call :: "environ \<Rightarrow> string \<Rightarrow> string list \<Rightarrow> setup_kwargs" where
  "setup_call env readme found =
     \<lparr> name = ''doubleblind'',
       version = getenv env ''CIRCLE_TAG'' ''0.1.0'',
       url = ''https://github.com/dual/doubleblind.git'',
       author = ''Paul Cruse III'',
       author_email = ''paulcruse3@gmail.com'',
       description = ''DoubleBlind is a module to scrub PII from datasets'',
       long_description = readme,
       long_description_content_type = ''text/markdown'',
       packages = found,
       python_requires = ''>=3.0'',
       install_requires = [''faker'', ''msgspec''],
       classifiers =
         [''Environment :: Web Environment'',
          ''Intended Audience :: Developers'',
          ''Topic :: Internet :: WWW/HTTP :: Dynamic Content'',
          ''Topic :: Software Development :: Libraries :: Python Modules'',
          ''Programming Language :: Python'',
          ''Programming Language :: Python :: 3'',
          ''Programming Language :: Python :: 3.6'',
          ''Programming Language :: Python :: 3.7'',
          ''Programming Language :: Python :: 3.8'',
          ''Programming Language :: Python :: 3.9'',
          ''Programming Language :: Python :: 3.10'',
          ''Programming Language :: Python :: 3.11''] \<rparr>"

text \<open>The whole script: lines 4 and 5 read the README, line 7 calls \<open>setup\<close>.\<close>

definition setup_py :: "files \<Rightarrow> string list \<Rightarrow> environ \<Rightarrow> py_error + setup_kwargs" where
  "setup_py fs found env =
     (case open_read fs ''README.md'' of
        Inl e \<Rightarrow> Inl e
      | Inr readme \<Rightarrow> Inr (setup_call env readme found))"

section \<open>The Consistency Cache\<close>

text \<open>
  The repository's sources hold the packaging script only; the scrub engine it packages
  is described by the specification alone. The definitions of this section follow the
  specification's contract of the Consistency Cache (section 4.3) and its error taxonomy
  (section 7).
\<close>

text \<open>Modelled from the spec: the PII category tag, which is not in the sources. It is a
  string identifier such as \<open>email\<close> or \<open>ssn\<close> (section 3).\<close>

type_synonym category = string

text \<open>Modelled from the spec: the scalar values of the object graph, which is not in the
  sources. A scalar has one of the primitive types string, number and date (section 4.2).\<close>

datatype scalar = Str string | Num int | Date int

text \<open>Modelled from the spec: the error taxonomy of section 7, which is not in the
  sources.\<close>

datatype scrub_error =
    UnknownCategoryError
  | DuplicateCategoryError
  | TypeMismatchError
  | SchemaMismatchError
  | SynthesisExhaustedError
  | MaxDepthExceededError
  | CyclicGraphError

text \<open>Modelled from the spec: the Consistency Cache's state, which is not in the sources.
  \<open>entries\<close> maps (category tag, original value) to the synthetic value; \<open>issued\<close> is
  the reverse index of the synthetic values already issued for a category;
  \<open>max_retries\<close> is the bounded retry count.\<close>

record cache =
  entries :: "category \<times> scalar \<rightharpoonup> scalar"
  issued :: "category \<Rightarrow> scalar set"
  max_retries :: nat

text \<open>Modelled from the spec: the cache a Scrub Session creates, which is not in the
  sources. It is empty and its retry count is the default 5.\<close>

definition new_cache :: cache where
  "new_cache = \<lparr> entries = Map.empty, issued = (\<lambda>_. {}), max_retries = 5 \<rparr>"

text \<open>Modelled from the spec: the \<open>factory\<close> argument of \<open>get_or_create\<close>, which is
  not in the sources. It wraps the Synthesizer: a call takes no argument, draws from the
  fake-data generator (whose state \<open>'g\<close> it advances) and returns a candidate or one of the
  Synthesizer's errors.\<close>

type_synonym 'g factory = "'g \<Rightarrow> (scrub_error + scalar) \<times> 'g"

text \<open>Modelled from the spec: the insert of a new cache entry, which is not in the
  sources. The entry is created on the first substitution of (category, original); its
  synthetic value joins the category's reverse index.\<close>

definition insert_entry :: "cache \<Rightarrow> category \<Rightarrow> scalar \<Rightarrow> scalar \<Rightarrow> cache" where
  "insert_entry c cat orig synthetic =
     c\<lparr> entries := (entries c)((cat, orig) \<mapsto> synthetic),
        issued := (issued c)(cat := insert synthetic (issued c cat)) \<rparr>"

text \<open>Modelled from the spec: the collision-retry loop of \<open>get_or_create\<close>, which is not
  in the sources. It invokes the factory, checks the candidate against the reverse index
  of the category, stores and returns a candidate that does not collide, and on a
  collision re-invokes the factory while retries are left, failing with
  \<open>SynthesisExhaustedError\<close> when none is.\<close>

fun synthesize_unique ::
  "nat \<Rightarrow> cache \<Rightarrow> category \<Rightarrow> scalar \<Rightarrow> 'g factory \<Rightarrow> 'g \<Rightarrow> (scrub_error + scalar) \<times> cache \<times> 'g"
where
  "synthesize_unique retries c cat orig factory g =
     (case factory g of
        (Inl e, g') \<Rightarrow> (Inl e, c, g')
      | (Inr candidate, g') \<Rightarrow>
          if candidate \<in> issued c cat then
            (case retries of
               0 \<Rightarrow> (Inl SynthesisExhaustedError, c, g')
             | Suc n \<Rightarrow> synthesize_unique n c cat orig factory g')
          else
            (Inr candidate, insert_entry c cat orig candidate, g'))"

text \<open>Modelled from the spec: \<open>get_or_create(category, original_value, factory)\<close>,
  which is not in the sources. A key that is present is a cache hit: the stored value is
  returned and the factory is not called. Otherwise the retry loop produces, stores and
  returns a fresh synthetic value. The result comes with the cache and the generator
  state after the call.\<close>

definition get_or_create ::
  "cache \<Rightarrow> category \<Rightarrow> scalar \<Rightarrow> 'g factory \<Rightarrow> 'g \<Rightarrow> (scrub_error + scalar) \<times> cache \<times> 'g"
where
  "get_or_create c cat orig factory g =
     (case entries c (cat, orig) of
        Some synthetic \<Rightarrow> (Inr synthetic, c, g)
      | None \<Rightarrow> synthesize_unique (max_retries c) c cat orig factory g)"

text \<open>Modelled from the spec: the substitution requests a session makes one after the
  other on its cache, which are not in the sources. Each request is a call of
  \<open>get_or_create\<close>; a request that fails leaves the session usable for the next.\<close>

fun session_requests ::
  "cache \<Rightarrow> (category \<times> scalar \<times> 'g factory) list \<Rightarrow> 'g \<Rightarrow> cache \<times> 'g"
where
  "session_requests c [] g = (c, g)"
| "session_requests c ((cat, orig, factory) # rs) g =
     (case get_or_create c cat orig factory g of
        (_, c', g') \<Rightarrow> session_requests c' rs g')"

text \<open>Two factories for concrete sessions, over a generator whose state is a counter: one
  issues the numbers 0, 1, 2, ... in turn, the other stands for a Synthesizer that always
  fails its type check. Both advance the counter, so a call of either shows in the
  generator state.\<close>

definition counting_factory :: "nat factory" where
  "counting_factory n = (Inr (Num (int n)), Suc n)"

definition failing_factory :: "nat factory" where
  "failing_factory n = (Inl TypeMismatchError, Suc n)"

section \<open>Properties of the packaging script\<close>

text \<open>
  Claim C9. The package version computed by \<open>setup.py\<close> equals the value of the
  \<open>CIRCLE_TAG\<close> environment variable when that variable is set, and equals
  \<open>'0.1.0'\<close> otherwise, for every environment. The script reaches \<open>setup\<close> once it
  has read \<open>README.md\<close>; then it returns the keyword arguments, and their version is the
  tag or the default, whatever else the environment, the README and the package list
  hold.
\<close>

theorem setup_py_version:
  assumes "fs ''README.md'' = Some readme"
  shows "\<exists>kw. setup_py fs found env = Inr kw \<and>
           version kw = (case env ''CIRCLE_TAG'' of Some tag \<Rightarrow> tag | None \<Rightarrow> ''0.1.0'')"
  using assms by (simp add: setup_py_def open_read_def setup_call_def getenv_def)

text \<open>A tagged build and an untagged one.\<close>

theorem setup_py_version_witness:
  "(\<exists>kw. setup_py [''README.md'' \<mapsto> ''# DoubleBlind''] [''doubleblind'']
            [''HOME'' \<mapsto> ''/root'', ''CIRCLE_TAG'' \<mapsto> ''1.4.2''] = Inr kw \<and>
         version kw = ''1.4.2'') \<and>
   (\<exists>kw. setup_py [''README.md'' \<mapsto> ''# DoubleBlind''] [''doubleblind'']
            [''HOME'' \<mapsto> ''/root''] = Inr kw \<and>
         version kw = ''0.1.0'')"
  using
    setup_py_version [of "[''README.md'' \<mapsto> ''# DoubleBlind'']" "''# DoubleBlind''"
      "[''doubleblind'']" "[''HOME'' \<mapsto> ''/root'', ''CIRCLE_TAG'' \<mapsto> ''1.4.2'']"]
    setup_py_version [of "[''README.md'' \<mapsto> ''# DoubleBlind'']" "''# DoubleBlind''"
      "[''doubleblind'']" "[''HOME'' \<mapsto> ''/root'']"]
  by simp

text \<open>
  Claim C10. The package declares exactly two runtime dependencies, \<open>'faker'\<close> and
  \<open>'msgspec'\<close>, and requires Python version \<open>>=3.0\<close>; this declaration is the same
  on every invocation of \<open>setup.py\<close>. Every run that reaches \<open>setup\<close> passes the same
  two-element \<open>install_requires\<close> and the same \<open>python_requires\<close>, whatever the
  environment, the files and the packages found.
\<close>

theorem setup_py_requirements:
  assumes "setup_py fs found env = Inr kw"
  shows "install_requires kw = [''faker'', ''msgspec''] \<and>
         length (install_requires kw) = 2 \<and>
         python_requires kw = ''>=3.0''"
  using assms by (auto simp: setup_py_def open_read_def setup_call_def split: option.splits)

text \<open>The declaration of a tagged build.\<close>

theorem setup_py_requirements_witness:
  "\<exists>kw. setup_py [''README.md'' \<mapsto> ''# DoubleBlind''] [''doubleblind'']
           [''CIRCLE_TAG'' \<mapsto> ''1.4.2''] = Inr kw \<and>
        install_requires kw = [''faker'', ''msgspec''] \<and>
        python_requires kw = ''>=3.0''"
proof -
  have run:
    "setup_py [''README.md'' \<mapsto> ''# DoubleBlind''] [''doubleblind''] [''CIRCLE_TAG'' \<mapsto> ''1.4.2'']
       = Inr (setup_call [''CIRCLE_TAG'' \<mapsto> ''1.4.2''] ''# DoubleBlind'' [''doubleblind''])"
    by (simp add: setup_py_def open_read_def)
  from setup_py_requirements [OF run] run show ?thesis
    by blast
qed

section \<open>Properties of the Consistency Cache\<close>

declare synthesize_unique.simps [simp del]

text \<open>The retry loop either leaves the cache as it was and reports an error, or inserts
  one entry whose synthetic value was not issued before.\<close>

lemma synthesize_unique_cases:
  "synthesize_unique n c cat orig factory g = (r, c', g') \<Longrightarrow>
     (c' = c \<and> (\<exists>e. r = Inl e)) \<or>
     (\<exists>v. r = Inr v \<and> v \<notin> issued c cat \<and> c' = insert_entry c cat orig v)"
proof (induction n arbitrary: g)
  case 0
  then show ?case
    by (subst (asm) synthesize_unique.simps) (auto split: prod.splits sum.splits if_splits)
next
  case (Suc n)
  from Suc.prems show ?case
    by (subst (asm) synthesize_unique.simps)
       (auto split: prod.splits sum.splits if_splits dest: Suc.IH)
qed

text \<open>No call overwrites or drops an entry.\<close>

lemma get_or_create_keeps:
  assumes "get_or_create c cat orig factory g = (r, c', g')"
    and "entries c k = Some v"
  shows "entries c' k = Some v"
proof (cases "entries c (cat, orig)")
  case None
  with assms(1) have "synthesize_unique (max_retries c) c cat orig factory g = (r, c', g')"
    by (simp add: get_or_create_def)
  from synthesize_unique_cases [OF this] None assms(2) show ?thesis
    by (auto simp: insert_entry_def)
next
  case (Some w)
  with assms show ?thesis
    by (simp add: get_or_create_def)
qed

text \<open>A call that returns a value has it stored under its key.\<close>

lemma get_or_create_stores:
  assumes "get_or_create c cat orig factory g = (Inr v, c', g')"
  shows "entries c' (cat, orig) = Some v"
proof (cases "entries c (cat, orig)")
  case None
  with assms have "synthesize_unique (max_retries c) c cat orig factory g = (Inr v, c', g')"
    by (simp add: get_or_create_def)
  from synthesize_unique_cases [OF this] show ?thesis
    by (auto simp: insert_entry_def)
next
  case (Some w)
  with assms show ?thesis
    by (simp add: get_or_create_def)
qed

lemma session_requests_keeps:
  "session_requests c rs g = (c', g') \<Longrightarrow> entries c k = Some v \<Longrightarrow> entries c' k = Some v"
proof (induction rs arbitrary: c g)
  case Nil
  then show ?case by simp
next
  case (Cons r rs)
  obtain cat orig factory where r: "r = (cat, orig, factory)"
    by (cases r) auto
  obtain res c1 g1 where step: "get_or_create c cat orig factory g = (res, c1, g1)"
    by (cases "get_or_create c cat orig factory g") auto
  from Cons.prems(1) r step have rest: "session_requests c1 rs g1 = (c', g')"
    by simp
  from get_or_create_keeps [OF step Cons.prems(2)] have "entries c1 k = Some v" .
  from Cons.IH [OF rest this] show ?case .
qed

text \<open>
  Claim C1. For every scrub session and every (category, original value) pair, repeated
  substitution requests within that one session return the identical synthetic value:
  once \<open>get_or_create\<close> has stored a synthetic value for (category, original value),
  every later call with the same key returns that stored value without invoking the
  factory again. Here the first call returns \<open>synthetic\<close>, the session goes on with any
  requests \<open>later\<close> (other keys, the same key, failing ones), and the call made then
  returns \<open>synthetic\<close> for any factory \<open>factory'\<close> it is given, leaving the cache and
  the generator state \<open>g'\<close> as they were: the factory was not called.
\<close>

theorem get_or_create_idempotent:
  assumes "get_or_create c cat orig factory g = (Inr synthetic, c1, g1)"
    and "session_requests c1 later g1 = (c2, g2)"
  shows "get_or_create c2 cat orig factory' g' = (Inr synthetic, c2, g')"
proof -
  from get_or_create_stores [OF assms(1)] have "entries c1 (cat, orig) = Some synthetic" .
  from session_requests_keeps [OF assms(2) this] have "entries c2 (cat, orig) = Some synthetic" .
  then show ?thesis
    by (simp add: get_or_create_def)
qed

text \<open>A session that substitutes one social security number, then another one, then fails
  on an email address, and is asked for the first number again with a factory that could
  only fail.\<close>

theorem get_or_create_idempotent_witness:
  "fst (get_or_create
          (fst (session_requests
                  (fst (snd (get_or_create new_cache ''ssn'' (Str ''123-45-6789'') counting_factory 0)))
                  [(''ssn'', Str ''987-65-4321'', counting_factory),
                   (''email'', Str ''a@x.com'', failing_factory)]
                  (snd (snd (get_or_create new_cache ''ssn'' (Str ''123-45-6789'') counting_factory 0)))))
          ''ssn'' (Str ''123-45-6789'') failing_factory 7)
     = Inr (Num 0)"
proof -
  let ?first = "get_or_create new_cache ''ssn'' (Str ''123-45-6789'') counting_factory 0"
  let ?later = "session_requests (fst (snd ?first))
      [(''ssn'', Str ''987-65-4321'', counting_factory), (''email'', Str ''a@x.com'', failing_factory)]
      (snd (snd ?first))"
  have stored: "?first = (Inr (Num 0), fst (snd ?first), snd (snd ?first))"
    by (simp add: get_or_create_def new_cache_def synthesize_unique.simps counting_factory_def
        insert_entry_def)
  have later: "?later = (fst ?later, snd ?later)"
    by simp
  from get_or_create_idempotent [OF stored later, of failing_factory 7] show ?thesis
    by simp
qed

end
